theory Spec2Isabelle
  imports Complex_Main "HOL-Library.AList"
begin

section \<open>Numbers, library functions and errors\<close>

text \<open>
  The Python code computes with \<^verbatim>\<open>float\<close> (IEEE doubles) through numpy. The embedding
  reads every float as a \<^typ>\<open>real\<close> and every numpy function as the real function it
  approximates: \<^verbatim>\<open>np.pi\<close> is \<^term>\<open>pi\<close>, \<^verbatim>\<open>np.sin\<close>, \<^verbatim>\<open>np.cos\<close>, \<^verbatim>\<open>np.tan\<close> are
  \<^term>\<open>sin\<close>, \<^term>\<open>cos\<close>, \<^term>\<open>tan\<close>. Rounding, NaN and infinities are outside the model.
  HOL's \<^term>\<open>tan\<close> is total (\<open>tan x = sin x / cos x\<close> with \<open>a / 0 = 0\<close>); the model says
  nothing trustworthy where \<open>cos\<close> of the half zenith distance is zero, that is at altitude
  \<open>-90\<close> degrees and its translates by 360. An altitude is an angle between \<open>-90\<close> and
  \<open>90\<close> degrees, and the renderer projects a star only when its altitude is positive.

  Record fields carry a short prefix (\<open>star_\<close>, \<open>pos_\<close>, \<open>calc_\<close>, \<open>color_\<close>, ...) so that
  the parameters and local variables of the functions keep the names they have in the
  source.
\<close>

datatype error =
    ValueError      \<comment> \<open>numpy and astropy raise it on an argument out of range\<close>
  | LibraryError    \<comment> \<open>any other exception of an external library call\<close>

definition radians :: "real \<Rightarrow> real" where
  \<comment> \<open>\<^verbatim>\<open>np.radians\<close>: degrees to radians\<close>
  "radians d = d * (pi / 180)"

definition linspace :: "real \<Rightarrow> real \<Rightarrow> int \<Rightarrow> error + real list" where
  \<comment> \<open>\<^verbatim>\<open>np.linspace(start, stop, num)\<close> with its default \<^verbatim>\<open>endpoint=True\<close>: \<open>num\<close> samples
      \<open>start + i * (stop - start) / (num - 1)\<close> for \<open>i = 0 .. num - 1\<close>, the last one
      being \<open>stop\<close>; the single sample of \<open>num = 1\<close> is \<open>start\<close> (here \<open>0 * (_ / 0) = 0\<close>);
      a negative \<open>num\<close> raises \<^verbatim>\<open>ValueError\<close>.\<close>
  "linspace start stop num =
     (if num < 0 then Inl ValueError
      else Inr (map (\<lambda>i. start + of_int i * ((stop - start) / of_int (num - 1)))
                  [0 .. num - 1]))"

section \<open>star\_catalog.py\<close>

text \<open>
  A star is a dict with the keys \<^verbatim>\<open>'ra'\<close>, \<^verbatim>\<open>'dec'\<close>, \<^verbatim>\<open>'magnitude'\<close> (and \<^verbatim>\<open>'hip_id'\<close>, which
  no modelled function reads). \<^verbatim>\<open>calculate_star_positions\<close> documents its argument as a
  "dictionary of star data with 'ra' and 'dec' keys" and reads the magnitude with
  \<^verbatim>\<open>.get('magnitude', 5.0)\<close>, so the magnitude alone is optional. Python dicts keep
  insertion order and the drawing loops run over \<^verbatim>\<open>.items()\<close>, so a dict is an
  association list; a well-formed one has distinct keys.
\<close>

type_synonym star_id = int

record star_data =
  star_ra :: real
  star_dec :: real
  star_magnitude :: "real option"

record constellation =
  con_lines :: "(star_id \<times> star_id) list option"   \<comment> \<open>the key \<^verbatim>\<open>'lines'\<close>\<close>

record catalog =
  cat_stars :: "(star_id \<times> star_data) list"               \<comment> \<open>\<^verbatim>\<open>self.stars\<close>\<close>
  cat_constellations :: "(string \<times> constellation) list"    \<comment> \<open>\<^verbatim>\<open>self.constellations\<close>\<close>

definition get_constellation_lines :: "catalog \<Rightarrow> string \<Rightarrow> (star_id \<times> star_id) list" where
  \<comment> \<open>\<^verbatim>\<open>self.constellations.get(constellation_name, {}).get('lines', [])\<close>\<close>
  "get_constellation_lines self constellation_name =
     (case map_of (cat_constellations self) constellation_name of
        None \<Rightarrow> []
      | Some c \<Rightarrow> (case con_lines c of None \<Rightarrow> [] | Some ls \<Rightarrow> ls))"

definition get_all_stars :: "catalog \<Rightarrow> (star_id \<times> star_data) list" where
  "get_all_stars self = cat_stars self"

definition get_all_constellations :: "catalog \<Rightarrow> string list" where
  \<comment> \<open>\<^verbatim>\<open>list(self.constellations.keys())\<close>\<close>
  "get_all_constellations self = map fst (cat_constellations self)"

section \<open>The world outside the repository\<close>

text \<open>
  What the code takes from its libraries and its surroundings is a parameter of the
  model: the clock (\<^verbatim>\<open>datetime.now(timezone.utc)\<close>), astropy's \<^verbatim>\<open>EarthLocation\<close>
  constructor, astropy's transformation of an ICRS coordinate to the \<^verbatim>\<open>AltAz\<close> frame of a
  location and a time (returning altitude and azimuth in degrees), the catalog that
  \<^verbatim>\<open>StarCatalog()\<close> loads, and the two string formatters of the title. The astropy calls
  may raise; nothing in the repository catches what they raise.
\<close>

record ('t, 'loc) env =
  now :: 't
  EarthLocation :: "real \<Rightarrow> real \<Rightarrow> real \<Rightarrow> error + 'loc"
  transform_to_altaz :: "'loc \<Rightarrow> 't \<Rightarrow> real \<Rightarrow> real \<Rightarrow> error + real \<times> real"
  StarCatalog :: catalog
  strftime :: "'t \<Rightarrow> string \<Rightarrow> string"
  format_2f :: "real \<Rightarrow> string"      \<comment> \<open>the format \<^verbatim>\<open>{:.2f}\<close>\<close>

section \<open>sky\_calculator.py\<close>

record 'loc sky_calculator =
  calc_latitude :: real
  calc_longitude :: real
  calc_elevation :: real
  calc_location :: 'loc

text \<open>
  \<^verbatim>\<open>SkyCalculator.__init__\<close>, lines 11-35. The skyfield timescale and location it also
  stores are read by no method.
\<close>

definition SkyCalculator_init ::
  "('t, 'loc) env \<Rightarrow> real \<Rightarrow> real \<Rightarrow> real \<Rightarrow> error + 'loc sky_calculator" where
  "SkyCalculator_init env latitude longitude elevation =
     (case EarthLocation env latitude longitude elevation of
        Inl e \<Rightarrow> Inl e
      | Inr loc \<Rightarrow>
          Inr \<lparr>calc_latitude = latitude, calc_longitude = longitude,
               calc_elevation = elevation, calc_location = loc\<rparr>)"

text \<open>\<^verbatim>\<open>SkyCalculator.celestial_to_horizontal(self, ra, dec, time=None)\<close>, lines 37-66.\<close>

definition celestial_to_horizontal ::
  "('t, 'loc) env \<Rightarrow> 'loc sky_calculator \<Rightarrow> real \<Rightarrow> real \<Rightarrow> 't option \<Rightarrow> error + real \<times> real" where
  "celestial_to_horizontal env self ra dec time =
     (let time = (case time of None \<Rightarrow> now env | Some t \<Rightarrow> t)
      in transform_to_altaz env (calc_location self) time ra dec)"

text \<open>
  \<^verbatim>\<open>SkyCalculator.calculate_star_positions(self, stars, time=None)\<close>, lines 126-157. An
  entry of the result is a dict with six keys. The loop assigns
  \<^verbatim>\<open>star_positions[star_id]\<close>, which is \<^const>\<open>AList.update\<close> on the association list.
\<close>

record star_position =
  pos_ra :: real
  pos_dec :: real
  pos_altitude :: real
  pos_azimuth :: real
  pos_magnitude :: real
  pos_visible :: bool

fun calculate_star_positions_loop ::
  "('t, 'loc) env \<Rightarrow> 'loc sky_calculator \<Rightarrow> 't \<Rightarrow> (star_id \<times> star_data) list
   \<Rightarrow> (star_id \<times> star_position) list \<Rightarrow> error + (star_id \<times> star_position) list" where
  "calculate_star_positions_loop env self time [] star_positions = Inr star_positions"
| "calculate_star_positions_loop env self time ((star_id, star_data) # rest) star_positions =
     (let ra = star_ra star_data;
          dec = star_dec star_data
      in case celestial_to_horizontal env self ra dec (Some time) of
           Inl e \<Rightarrow> Inl e
         | Inr (altitude, azimuth) \<Rightarrow>
             calculate_star_positions_loop env self time rest
               (AList.update star_id
                  \<lparr>pos_ra = ra, pos_dec = dec, pos_altitude = altitude, pos_azimuth = azimuth,
                   pos_magnitude = (case star_magnitude star_data of None \<Rightarrow> 5.0 | Some m \<Rightarrow> m),
                   pos_visible = (altitude > 0)\<rparr>
                  star_positions))"

definition calculate_star_positions ::
  "('t, 'loc) env \<Rightarrow> 'loc sky_calculator \<Rightarrow> (star_id \<times> star_data) list \<Rightarrow> 't option
   \<Rightarrow> error + (star_id \<times> star_position) list" where
  "calculate_star_positions env self stars time =
     (let time = (case time of None \<Rightarrow> now env | Some t \<Rightarrow> t)
      in calculate_star_positions_loop env self time stars [])"

text \<open>
  \<^verbatim>\<open>SkyCalculator.get_cardinal_directions(self, time=None)\<close>, lines 159-174: a constant
  dict, whatever \<^verbatim>\<open>self\<close> and \<^verbatim>\<open>time\<close> are.
\<close>

definition get_cardinal_directions :: "(string \<times> real) list" where
  "get_cardinal_directions = [(''North'', 0), (''East'', 90), (''South'', 180), (''West'', 270)]"

text \<open>
  \<^verbatim>\<open>SkyCalculator.project_to_stereographic(self, altitude, azimuth)\<close>, lines 176-202.
  The method does not read \<^verbatim>\<open>self\<close>.
\<close>

definition project_to_stereographic :: "real \<Rightarrow> real \<Rightarrow> real \<times> real" where
  "project_to_stereographic altitude azimuth =
     (let alt_rad = radians altitude;
          az_rad = radians azimuth;
          zenith_distance = pi / 2 - alt_rad;
          r = tan (zenith_distance / 2);
          x = r * sin az_rad;
          y = r * cos az_rad
      in (x, y))"

text \<open>
  \<^verbatim>\<open>SkyCalculator.get_horizon_circle(self, num_points=360)\<close>, lines 204-223: the two
  coordinate lists grow by one element per azimuth. The method reads nothing of
  \<^verbatim>\<open>self\<close>: neither the location nor a time enters.
\<close>

definition get_horizon_circle :: "int \<Rightarrow> error + real list \<times> real list" where
  "get_horizon_circle num_points =
     (case linspace 0 360 num_points of
        Inl e \<Rightarrow> Inl e
      | Inr azimuths \<Rightarrow>
          Inr (fold (\<lambda>az (x_coords, y_coords).
                      let (x, y) = project_to_stereographic 0 az
                      in (x_coords @ [x], y_coords @ [y]))
                 azimuths ([], [])))"


section \<open>sky\_renderer.py\<close>

subsection \<open>The canvas\<close>

text \<open>
  The renderer draws by calling matplotlib: \<^verbatim>\<open>ax.add_patch(patches.Circle(...))\<close>,
  \<^verbatim>\<open>ax.text\<close>, \<^verbatim>\<open>ax.scatter\<close> and \<^verbatim>\<open>ax.plot\<close>. Each call appends one artist to the axes; an
  artist records the arguments of its call, an optional argument that a call leaves out
  being \<^const>\<open>None\<close>. The sequence of artists is the sequence of drawing primitives.
\<close>

datatype artist =
    Circle "real \<times> real" real bool string real "string option" "real option"
      \<comment> \<open>centre, radius, fill, edgecolor, linewidth, linestyle, alpha\<close>
  | Text real real string string string string real "string option"
      \<comment> \<open>x, y, s, ha, va, color, fontsize, fontweight\<close>
  | Scatter real real real string string real "string option"
      \<comment> \<open>x, y, s, c, marker, alpha, edgecolors\<close>
  | Plot "real list" "real list" string real real
      \<comment> \<open>xs, ys, color, linewidth, alpha\<close>

record figure =
  fig_figsize :: "real \<times> real"
  fig_dpi :: real
  fig_facecolor :: string

record axes =
  ax_xlim :: "real \<times> real"
  ax_ylim :: "real \<times> real"
  ax_aspect :: string
  ax_facecolor :: string
  ax_artists :: "artist list"

definition add_artist :: "axes \<Rightarrow> artist \<Rightarrow> axes" where
  "add_artist ax a = ax\<lparr>ax_artists := ax_artists ax @ [a]\<rparr>"

subsection \<open>The renderer\<close>

record color_scheme =
  color_background :: string
  color_horizon :: string
  color_stars :: string
  color_constellation_lines :: string
  color_cardinal_text :: string
  color_altitude_circles :: string

record size_mapping =
  min_size :: real
  max_size :: real
  magnitude_range :: real

record sky_renderer =
  rend_width :: real
  rend_height :: real
  rend_dpi :: real
  colors :: color_scheme
  star_sizes :: size_mapping

text \<open>
  \<^verbatim>\<open>SkyRenderer.__init__(self, width=12, height=12, dpi=100)\<close>, lines 9-37: the only place
  that writes \<^verbatim>\<open>self.colors\<close> and \<^verbatim>\<open>self.star_sizes\<close>.
\<close>

definition SkyRenderer_init :: "real \<Rightarrow> real \<Rightarrow> real \<Rightarrow> sky_renderer" where
  "SkyRenderer_init width height dpi =
     \<lparr>rend_width = width, rend_height = height, rend_dpi = dpi,
      colors = \<lparr>color_background = ''#000011'', color_horizon = ''#444444'',
                color_stars = ''#ffffff'', color_constellation_lines = ''#888888'',
                color_cardinal_text = ''#cccccc'', color_altitude_circles = ''#333333''\<rparr>,
      star_sizes = \<lparr>min_size = 1, max_size = 8, magnitude_range = 6\<rparr>\<rparr>"

text \<open>
  \<^verbatim>\<open>SkyRenderer.create_figure\<close>, lines 39-66. Ticks and spines are switched off; they
  are no artists.
\<close>

definition create_figure :: "sky_renderer \<Rightarrow> figure \<times> axes" where
  "create_figure self =
     (\<lparr>fig_figsize = (rend_width self, rend_height self), fig_dpi = rend_dpi self,
       fig_facecolor = color_background (colors self)\<rparr>,
      \<lparr>ax_xlim = (-2, 2), ax_ylim = (-2, 2), ax_aspect = ''equal'',
       ax_facecolor = color_background (colors self), ax_artists = []\<rparr>)"

text \<open>\<^verbatim>\<open>SkyRenderer.draw_horizon_and_grid\<close>, lines 68-117.\<close>

definition draw_altitude_circle :: "sky_renderer \<Rightarrow> real \<Rightarrow> axes \<Rightarrow> axes" where
  \<comment> \<open>the body of \<^verbatim>\<open>for alt in [30, 60]\<close>\<close>
  "draw_altitude_circle self alt ax =
     (let alt_rad = radians alt;
          zenith_distance = pi / 2 - alt_rad;
          r = tan (zenith_distance / 2)
      in if r < 2
         then add_artist ax
                (Circle (0, 0) r False (color_altitude_circles (colors self)) 1
                   (Some ''--'') (Some 0.5))
         else ax)"

definition draw_cardinal_direction :: "sky_renderer \<Rightarrow> string \<times> real \<Rightarrow> axes \<Rightarrow> axes" where
  \<comment> \<open>the body of \<^verbatim>\<open>for direction, azimuth in cardinal_dirs.items()\<close>\<close>
  "draw_cardinal_direction self item ax =
     (let (direction, azimuth) = item;
          (x, y) = project_to_stereographic 0 azimuth;
          x = x * 1.1;
          y = y * 1.1
      in add_artist ax
           (Text x y direction ''center'' ''center'' (color_cardinal_text (colors self)) 12
              (Some ''bold'')))"

definition draw_horizon_and_grid :: "sky_renderer \<Rightarrow> axes \<Rightarrow> 'loc sky_calculator \<Rightarrow> axes" where
  \<comment> \<open>\<^verbatim>\<open>sky_calc\<close> is used for its two methods that do not read it\<close>
  "draw_horizon_and_grid self ax sky_calc =
     (let ax = add_artist ax (Circle (0, 0) 1 False (color_horizon (colors self)) 2 None None);
          ax = fold (draw_altitude_circle self) [30, 60] ax;
          cardinal_dirs = get_cardinal_directions
      in fold (draw_cardinal_direction self) cardinal_dirs ax)"

text \<open>\<^verbatim>\<open>SkyRenderer.calculate_star_size(self, magnitude)\<close>, lines 119-137.\<close>

definition calculate_star_size :: "sky_renderer \<Rightarrow> real \<Rightarrow> real" where
  "calculate_star_size self magnitude =
     (let mag = max 0 (min magnitude (magnitude_range (star_sizes self)));
          size_range = max_size (star_sizes self) - min_size (star_sizes self);
          size = max_size (star_sizes self) - (mag / magnitude_range (star_sizes self)) * size_range
      in size)"

text \<open>\<^verbatim>\<open>SkyRenderer.project_star_position(self, altitude, azimuth)\<close>, lines 211-234.\<close>

definition project_star_position :: "real \<Rightarrow> real \<Rightarrow> real \<times> real" where
  "project_star_position altitude azimuth =
     (let alt_rad = radians altitude;
          az_rad = radians azimuth;
          zenith_distance = pi / 2 - alt_rad;
          r = tan (zenith_distance / 2);
          x = r * sin az_rad;
          y = r * cos az_rad
      in (x, y))"

text \<open>
  \<^verbatim>\<open>SkyRenderer.draw_stars(self, ax, star_positions)\<close>, lines 139-172. The loop body
  either leaves the axes as they are (\<^verbatim>\<open>continue\<close>) or adds one scatter artist.
\<close>

definition draw_star :: "sky_renderer \<Rightarrow> star_id \<times> star_position \<Rightarrow> axes \<Rightarrow> axes" where
  \<comment> \<open>the body of \<^verbatim>\<open>for star_id, star_data in star_positions.items()\<close>\<close>
  "draw_star self item ax =
     (let (star_id, star_data) = item
      in if \<not> pos_visible star_data then ax
         else let (x, y) = project_star_position (pos_altitude star_data) (pos_azimuth star_data)
              in if x * x + y * y > 4 then ax
                 else let size = calculate_star_size self (pos_magnitude star_data)
                      in add_artist ax
                           (Scatter x y (size\<^sup>2) (color_stars (colors self)) ''*'' 0.9
                              (Some ''none'')))"

definition draw_stars :: "sky_renderer \<Rightarrow> axes \<Rightarrow> (star_id \<times> star_position) list \<Rightarrow> axes" where
  "draw_stars self ax star_positions = fold (draw_star self) star_positions ax"

text \<open>
  \<^verbatim>\<open>SkyRenderer.draw_constellation_lines(self, ax, star_positions, catalog)\<close>, lines
  174-209. The condition is a chain of \<^verbatim>\<open>and\<close>: the two membership tests come first, so
  \<^verbatim>\<open>star_positions[...]\<close> is read only for a key that is present.
\<close>

definition draw_line ::
  "sky_renderer \<Rightarrow> (star_id \<times> star_position) list \<Rightarrow> star_id \<times> star_id \<Rightarrow> axes \<Rightarrow> axes" where
  \<comment> \<open>the body of \<^verbatim>\<open>for line in lines\<close>\<close>
  "draw_line self star_positions line ax =
     (let (star1_id, star2_id) = line
      in case map_of star_positions star1_id of
           None \<Rightarrow> ax
         | Some star1 \<Rightarrow>
             (case map_of star_positions star2_id of
                None \<Rightarrow> ax
              | Some star2 \<Rightarrow>
                  if pos_visible star1 \<and> pos_visible star2
                  then let (x1, y1) = project_star_position (pos_altitude star1) (pos_azimuth star1);
                           (x2, y2) = project_star_position (pos_altitude star2) (pos_azimuth star2)
                       in add_artist ax
                            (Plot [x1, x2] [y1, y2] (color_constellation_lines (colors self)) 1 0.7)
                  else ax))"

definition draw_constellation ::
  "sky_renderer \<Rightarrow> (star_id \<times> star_position) list \<Rightarrow> catalog \<Rightarrow> string \<Rightarrow> axes \<Rightarrow> axes" where
  \<comment> \<open>the body of \<^verbatim>\<open>for constellation_name in catalog.get_all_constellations()\<close>\<close>
  "draw_constellation self star_positions catalog constellation_name ax =
     (let lines = get_constellation_lines catalog constellation_name
      in fold (draw_line self star_positions) lines ax)"

definition draw_constellation_lines ::
  "sky_renderer \<Rightarrow> axes \<Rightarrow> (star_id \<times> star_position) list \<Rightarrow> catalog \<Rightarrow> axes" where
  "draw_constellation_lines self ax star_positions catalog =
     fold (draw_constellation self star_positions catalog) (get_all_constellations catalog) ax"

text \<open>
  \<^verbatim>\<open>SkyRenderer.add_title_and_info\<close>, lines 236-276. A Python string is a list of code
  points; here the degree sign is its two UTF-8 bytes. \<^verbatim>\<open>if city_name:\<close> holds for a
  string that is neither \<^verbatim>\<open>None\<close> nor empty.
\<close>

definition degree_sign :: string where
  "degree_sign = [CHR 0xC2, CHR 0xB0]"

definition newline :: string where
  "newline = [CHR 0x0A]"

definition add_title_and_info ::
  "('t, 'loc) env \<Rightarrow> sky_renderer \<Rightarrow> axes \<Rightarrow> real \<Rightarrow> real \<Rightarrow> 't \<Rightarrow> string option \<Rightarrow> axes" where
  "add_title_and_info env self ax latitude longitude time city_name =
     (let time_str = strftime env time ''%Y-%m-%d %H:%M UTC'';
          location_str = ''Lat: '' @ format_2f env latitude @ degree_sign
                         @ '', Lon: '' @ format_2f env longitude @ degree_sign;
          location_str = (case city_name of
                            None \<Rightarrow> location_str
                          | Some c \<Rightarrow> if c = [] then location_str
                                      else c @ '' ('' @ location_str @ '')'');
          title = ''Night Sky View'' @ newline @ location_str @ newline @ time_str;
          ax = add_artist ax
                 (Text 0 2.3 title ''center'' ''top'' (color_cardinal_text (colors self)) 14
                    (Some ''bold''));
          ax = add_artist ax
                 (Scatter 0 0 20 (color_cardinal_text (colors self)) ''+'' 0.8 None)
      in add_artist ax
           (Text 0 (-0.1) ''Zenith'' ''center'' ''top'' (color_cardinal_text (colors self)) 10 None))"

text \<open>
  \<^verbatim>\<open>SkyRenderer.render_sky(self, latitude, longitude, time=None, city_name=None,
  save_path=None)\<close>, lines 278-327. Writing the image file (\<^verbatim>\<open>save_path\<close>) changes neither
  the figure nor the axes and is left out.
\<close>

definition render_sky ::
  "('t, 'loc) env \<Rightarrow> sky_renderer \<Rightarrow> real \<Rightarrow> real \<Rightarrow> 't option \<Rightarrow> string option
   \<Rightarrow> error + figure \<times> axes" where
  "render_sky env self latitude longitude time city_name =
     (let time = (case time of None \<Rightarrow> now env | Some t \<Rightarrow> t);
          catalog = StarCatalog env
      in case SkyCalculator_init env latitude longitude 0 of
           Inl e \<Rightarrow> Inl e
         | Inr sky_calc \<Rightarrow>
             (let (fig, ax) = create_figure self;
                  ax = draw_horizon_and_grid self ax sky_calc;
                  stars = get_all_stars catalog
              in case calculate_star_positions env sky_calc stars (Some time) of
                   Inl e \<Rightarrow> Inl e
                 | Inr star_positions \<Rightarrow>
                     (let ax = draw_stars self ax star_positions;
                          ax = draw_constellation_lines self ax star_positions catalog;
                          ax = add_title_and_info env self ax latitude longitude time city_name
                      in Inr (fig, ax))))"


section \<open>Notions of the specification\<close>

text \<open>
  The statements below speak of the plot point of a computed star position, of the
  condition under which a star or a constellation line is drawn, and of the artist that
  is drawn for it.
\<close>

definition plot_point :: "star_position \<Rightarrow> real \<times> real" where
  "plot_point p = project_star_position (pos_altitude p) (pos_azimuth p)"

definition star_is_drawn :: "star_position \<Rightarrow> bool" where
  \<comment> \<open>altitude strictly positive and the plot point within the bound 2\<close>
  "star_is_drawn p =
     (0 < pos_altitude p \<and> (fst (plot_point p))\<^sup>2 + (snd (plot_point p))\<^sup>2 \<le> 4)"

definition star_point :: "sky_renderer \<Rightarrow> star_position \<Rightarrow> artist" where
  "star_point self p =
     Scatter (fst (plot_point p)) (snd (plot_point p))
       ((calculate_star_size self (pos_magnitude p))\<^sup>2) (color_stars (colors self)) ''*'' 0.9
       (Some ''none'')"

definition all_lines :: "catalog \<Rightarrow> (star_id \<times> star_id) list" where
  \<comment> \<open>every edge of every constellation, in the order the loops visit them\<close>
  "all_lines catalog =
     concat (map (get_constellation_lines catalog) (get_all_constellations catalog))"

definition line_is_drawn :: "(star_id \<times> star_position) list \<Rightarrow> star_id \<times> star_id \<Rightarrow> bool" where
  \<comment> \<open>both ends are keys of the mapping and both have a strictly positive altitude\<close>
  "line_is_drawn star_positions line =
     (case map_of star_positions (fst line) of
        None \<Rightarrow> False
      | Some star1 \<Rightarrow>
          (case map_of star_positions (snd line) of
             None \<Rightarrow> False
           | Some star2 \<Rightarrow> 0 < pos_altitude star1 \<and> 0 < pos_altitude star2))"

definition line_segment ::
  "sky_renderer \<Rightarrow> (star_id \<times> star_position) list \<Rightarrow> star_id \<times> star_id \<Rightarrow> artist" where
  "line_segment self star_positions line =
     (let p1 = plot_point (the (map_of star_positions (fst line)));
          p2 = plot_point (the (map_of star_positions (snd line)))
      in Plot [fst p1, fst p2] [snd p1, snd p2] (color_constellation_lines (colors self)) 1 0.7)"

definition closed_horizon_samples :: "int \<Rightarrow> (real \<times> real) list" where
  \<comment> \<open>altitude 0 at the azimuths \<open>i * 360 / (n - 1)\<close>, \<open>i = 0 .. n - 1\<close>: both ends of
      \<open>[0, 360]\<close> are sampled\<close>
  "closed_horizon_samples n =
     map (\<lambda>i. project_to_stereographic 0 (of_int i * (360 / of_int (n - 1)))) [0 .. n - 1]"

definition half_open_horizon_samples :: "int \<Rightarrow> (real \<times> real) list" where
  \<comment> \<open>the specification's \<open>horizonBoundary\<close>: altitude 0 at the azimuths \<open>i * 360 / n\<close>,
      \<open>i = 0 .. n - 1\<close>, uniform over \<open>[0, 360)\<close>\<close>
  "half_open_horizon_samples n =
     map (\<lambda>i. project_to_stereographic 0 (of_int i * (360 / of_int n))) [0 .. n - 1]"


text \<open>An entry of the computed mapping agrees with the star it was computed from.\<close>

definition entry_ok ::
  "('t, 'loc) env \<Rightarrow> 'loc sky_calculator \<Rightarrow> 't \<Rightarrow> star_data \<Rightarrow> star_position \<Rightarrow> bool" where
  "entry_ok env self time d p =
     (pos_ra p = star_ra d \<and> pos_dec p = star_dec d
      \<and> pos_magnitude p = (case star_magnitude d of None \<Rightarrow> 5 | Some m \<Rightarrow> m)
      \<and> pos_visible p = (0 < pos_altitude p)
      \<and> celestial_to_horizontal env self (star_ra d) (star_dec d) (Some time)
          = Inr (pos_altitude p, pos_azimuth p))"

section \<open>A small world for concrete instances\<close>

text \<open>
  Seen from the north pole the altitude of a star is its declination; this world's
  transform returns the declination as the altitude and the right ascension as the
  azimuth. Its catalog has a star at altitude 10 degrees, a star at altitude -5 degrees
  with no magnitude, and one constellation whose edges join the two stars, the first star
  with itself, and the first star with an identifier that is no star.
\<close>

definition example_catalog :: catalog where
  "example_catalog =
     \<lparr>cat_stars = [(1, \<lparr>star_ra = 0, star_dec = 10, star_magnitude = Some 2\<rparr>),
                   (2, \<lparr>star_ra = 90, star_dec = -5, star_magnitude = None\<rparr>)],
      cat_constellations = [(''Pair'', \<lparr>con_lines = Some [(1, 2), (1, 1), (1, 3)]\<rparr>)]\<rparr>"

definition example_env :: "(nat, unit) env" where
  "example_env =
     \<lparr>now = 0,
      EarthLocation = (\<lambda>latitude longitude elevation. Inr ()),
      transform_to_altaz = (\<lambda>loc time ra dec. Inr (dec, ra)),
      StarCatalog = example_catalog,
      strftime = (\<lambda>time fmt. fmt),
      format_2f = (\<lambda>x. ''0.00'')\<rparr>"

definition example_calc :: "unit sky_calculator" where
  "example_calc =
     \<lparr>calc_latitude = 90, calc_longitude = 0, calc_elevation = 0, calc_location = ()\<rparr>"

definition example_position_1 :: star_position where
  "example_position_1 =
     \<lparr>pos_ra = 0, pos_dec = 10, pos_altitude = 10, pos_azimuth = 0, pos_magnitude = 2,
      pos_visible = True\<rparr>"

definition example_position_2 :: star_position where
  "example_position_2 =
     \<lparr>pos_ra = 90, pos_dec = -5, pos_altitude = -5, pos_azimuth = 90, pos_magnitude = 5,
      pos_visible = False\<rparr>"

definition example_positions :: "(star_id \<times> star_position) list" where
  "example_positions = [(1, example_position_1), (2, example_position_2)]"

section \<open>The stereographic projection\<close>

lemma sq_polar: "(r * sin a)\<^sup>2 + (r * cos a)\<^sup>2 = r\<^sup>2" for r a :: real
proof -
  have "(r * sin a)\<^sup>2 + (r * cos a)\<^sup>2 = r\<^sup>2 * ((sin a)\<^sup>2 + (cos a)\<^sup>2)"
    by (simp only: power_mult_distrib distrib_left)
  then show ?thesis by (simp only: sin_cos_squared_add mult_1_right)
qed

lemma projection_radius:
  "(fst (project_to_stereographic alt az))\<^sup>2 + (snd (project_to_stereographic alt az))\<^sup>2
   = (tan ((pi / 2 - radians alt) / 2))\<^sup>2"
  by (simp add: project_to_stereographic_def Let_def sq_polar)

lemma tan_half_zenith_gt_1:
  assumes "-90 < alt" and "alt < 0"
  shows "1 < tan ((pi / 2 - radians alt) / 2)"
proof -
  let ?h = "(pi / 2 - radians alt) / 2"
  have neg: "alt * pi < 0"
    using assms(2) pi_gt_zero by (simp add: mult_neg_pos)
  have big: "-90 * pi < alt * pi"
    using assms(1) pi_gt_zero by (simp only: mult_less_cancel_right_pos)
  have lo: "pi / 4 < ?h"
    using neg by (simp add: radians_def field_simps)
  have hi: "?h < pi / 2"
    using big by (simp add: radians_def field_simps)
  have "tan (pi / 4) < tan ?h"
    by (rule tan_monotone) (use lo hi pi_gt_zero in auto)
  then show ?thesis by (simp add: tan_45)
qed

lemma horizon_on_unit_circle:
  "(fst (project_to_stereographic 0 az))\<^sup>2 + (snd (project_to_stereographic 0 az))\<^sup>2 = 1"
proof -
  have "(pi / 2 - radians 0) / 2 = pi / 4"
    by (simp add: radians_def)
  then show ?thesis
    by (simp only: projection_radius tan_45) simp
qed

text \<open>
  C1. For every azimuth the stereographic projection sends altitude 90 degrees to the
  origin, altitude 0 degrees to a point of the unit circle (\<open>x\<^sup>2 + y\<^sup>2 = 1\<close>), and every
  altitude strictly between -90 and 0 degrees to a point strictly outside the unit
  circle (\<open>x\<^sup>2 + y\<^sup>2 > 1\<close>).
\<close>

theorem project_to_stereographic_zenith_horizon_below:
  "project_to_stereographic 90 az = (0, 0)
   \<and> (fst (project_to_stereographic 0 az))\<^sup>2 + (snd (project_to_stereographic 0 az))\<^sup>2 = 1
   \<and> (\<forall>alt. -90 < alt \<and> alt < 0 \<longrightarrow>
         1 < (fst (project_to_stereographic alt az))\<^sup>2
           + (snd (project_to_stereographic alt az))\<^sup>2)"
proof (intro conjI allI impI)
  show "project_to_stereographic 90 az = (0, 0)"
    by (simp add: project_to_stereographic_def radians_def Let_def)
next
  show "(fst (project_to_stereographic 0 az))\<^sup>2 + (snd (project_to_stereographic 0 az))\<^sup>2 = 1"
    by (rule horizon_on_unit_circle)
next
  fix alt :: real
  assume a: "-90 < alt \<and> alt < 0"
  then have "1 < tan ((pi / 2 - radians alt) / 2)"
    using tan_half_zenith_gt_1 by blast
  then have "1 < (tan ((pi / 2 - radians alt) / 2))\<^sup>2"
    by (simp add: power2_eq_square less_1_mult)
  then show "1 < (fst (project_to_stereographic alt az))\<^sup>2
           + (snd (project_to_stereographic alt az))\<^sup>2"
    by (simp only: projection_radius)
qed

theorem project_to_stereographic_zenith_horizon_below_witness:
  "project_to_stereographic 90 45 = (0, 0)
   \<and> (fst (project_to_stereographic 0 45))\<^sup>2 + (snd (project_to_stereographic 0 45))\<^sup>2 = 1
   \<and> (-90 :: real) < -30 \<and> (-30 :: real) < 0
   \<and> 1 < (fst (project_to_stereographic (-30) 45))\<^sup>2
         + (snd (project_to_stereographic (-30) 45))\<^sup>2"
  using project_to_stereographic_zenith_horizon_below [of 45] by simp

text \<open>
  C9. The renderer's \<open>project_star_position\<close> and the calculator's
  \<open>project_to_stereographic\<close> return the same pair for every altitude and azimuth.
\<close>

theorem project_star_position_eq_project_to_stereographic:
  "project_star_position alt az = project_to_stereographic alt az"
  by (simp add: project_star_position_def project_to_stereographic_def)

section \<open>The size of a star\<close>

text \<open>
  C5. For a renderer as its constructor leaves it (minimum size 1, maximum size 8,
  magnitude range 6) and every magnitude \<open>m\<close>, the size is
  \<open>8 - (clamp(m, 0, 6) / 6) * (8 - 1)\<close>; it does not increase when the magnitude
  increases, it is 1 from magnitude 6 on and 8 up to magnitude 0, and in particular it
  is 8 at 0, 1 at 6 and 1 at 10.
\<close>

theorem calculate_star_size_linear_clamped:
  "calculate_star_size (SkyRenderer_init w h d) m = 8 - (max 0 (min m 6) / 6) * (8 - 1)
   \<and> (\<forall>m'. m \<le> m' \<longrightarrow>
          calculate_star_size (SkyRenderer_init w h d) m'
            \<le> calculate_star_size (SkyRenderer_init w h d) m)
   \<and> (6 \<le> m \<longrightarrow> calculate_star_size (SkyRenderer_init w h d) m = 1)
   \<and> (m \<le> 0 \<longrightarrow> calculate_star_size (SkyRenderer_init w h d) m = 8)
   \<and> calculate_star_size (SkyRenderer_init w h d) 0 = 8
   \<and> calculate_star_size (SkyRenderer_init w h d) 6 = 1
   \<and> calculate_star_size (SkyRenderer_init w h d) 10 = 1"
  by (auto simp add: calculate_star_size_def SkyRenderer_init_def Let_def max_def min_def)

theorem calculate_star_size_linear_clamped_witness:
  "calculate_star_size (SkyRenderer_init 12 12 100) 3 = 8 - (max 0 (min 3 6) / 6) * (8 - 1)
   \<and> (3::real) \<le> 4
   \<and> calculate_star_size (SkyRenderer_init 12 12 100) 4
        \<le> calculate_star_size (SkyRenderer_init 12 12 100) 3
   \<and> calculate_star_size (SkyRenderer_init 12 12 100) 7 = 1
   \<and> calculate_star_size (SkyRenderer_init 12 12 100) (-1) = 8"
  using calculate_star_size_linear_clamped [of 12 12 100 3]
    calculate_star_size_linear_clamped [of 12 12 100 7]
    calculate_star_size_linear_clamped [of 12 12 100 "-1"]
  by simp


section \<open>The horizon circle\<close>

lemma fold_coordinates:
  "fold (\<lambda>az (x_coords, y_coords). case f az of (x, y) \<Rightarrow> (x_coords @ [x], y_coords @ [y]))
     azimuths (xs, ys)
   = (xs @ map (fst \<circ> f) azimuths, ys @ map (snd \<circ> f) azimuths)"
  by (induction azimuths arbitrary: xs ys) (simp_all add: case_prod_beta)

lemma get_horizon_circle_closed_form:
  assumes "0 \<le> n"
  shows "get_horizon_circle n
         = Inr (map fst (closed_horizon_samples n), map snd (closed_horizon_samples n))"
  using assms
  by (simp add: get_horizon_circle_def linspace_def fold_coordinates closed_horizon_samples_def
      comp_def del: fold_simps)

lemma upto_0_1: "[0 .. (1::int)] = [0, 1]"
  by (simp add: upto.simps)

lemma north_point: "project_to_stereographic 0 0 = (0, 1)"
  by (simp add: project_to_stereographic_def radians_def Let_def tan_45)

lemma full_turn_point: "project_to_stereographic 0 360 = (0, 1)"
  by (simp add: project_to_stereographic_def radians_def Let_def tan_45)

lemma south_point: "project_to_stereographic 0 180 = (0, -1)"
  by (simp add: project_to_stereographic_def radians_def Let_def tan_45)

text \<open>
  C7, as the code has it. For every \<open>num_points \<ge> 0\<close> the horizon circle is the ordered
  sequence of \<open>num_points\<close> points obtained at altitude 0 from the azimuths
  \<open>i * 360 / (num_points - 1)\<close>, \<open>i = 0 .. num_points - 1\<close>: the closed interval from 0
  to 360 degrees is sampled uniformly, both ends included. Every point lies on the unit
  circle, and the result depends on \<open>num_points\<close> alone. A negative \<open>num_points\<close> raises
  \<open>ValueError\<close>.
\<close>

theorem get_horizon_circle_closed_interval:
  "(0 \<le> n \<longrightarrow>
      get_horizon_circle n
        = Inr (map fst (closed_horizon_samples n), map snd (closed_horizon_samples n))
      \<and> length (closed_horizon_samples n) = nat n
      \<and> (\<forall>p \<in> set (closed_horizon_samples n). (fst p)\<^sup>2 + (snd p)\<^sup>2 = 1))
   \<and> (n < 0 \<longrightarrow> get_horizon_circle n = Inl ValueError)"
proof (intro conjI impI)
  assume "0 \<le> n"
  then show "get_horizon_circle n
        = Inr (map fst (closed_horizon_samples n), map snd (closed_horizon_samples n))"
    by (rule get_horizon_circle_closed_form)
next
  assume "0 \<le> n"
  then show "length (closed_horizon_samples n) = nat n"
    by (simp add: closed_horizon_samples_def)
next
  show "\<forall>p \<in> set (closed_horizon_samples n). (fst p)\<^sup>2 + (snd p)\<^sup>2 = 1"
    by (auto simp add: closed_horizon_samples_def horizon_on_unit_circle)
next
  assume "n < 0"
  then show "get_horizon_circle n = Inl ValueError"
    by (simp add: get_horizon_circle_def linspace_def)
qed

theorem get_horizon_circle_closed_interval_witness:
  "(0::int) \<le> 2
   \<and> get_horizon_circle 2 = Inr ([0, 0], [1, 1])
   \<and> length (closed_horizon_samples 2) = 2
   \<and> closed_horizon_samples 2 = [(0, 1), (0, 1)]
   \<and> (fst (0::real, 1::real))\<^sup>2 + (snd (0::real, 1::real))\<^sup>2 = 1
   \<and> (-1::int) < 0
   \<and> get_horizon_circle (-1) = Inl ValueError"
  using get_horizon_circle_closed_interval [of 2] get_horizon_circle_closed_interval [of "-1"]
  by (simp add: closed_horizon_samples_def upto_0_1 north_point full_turn_point)

text \<open>
  C7, as the specification states it, fails: with two points the code samples the
  azimuths 0 and 360 and returns the north point twice, where uniform sampling of the
  half-open interval takes the azimuths 0 and 180 and returns the north and the south
  point.
\<close>

theorem get_horizon_circle_half_open_counterexample:
  "linspace 0 360 2 = Inr [0, 360]
   \<and> get_horizon_circle 2 = Inr ([0, 0], [1, 1])
   \<and> half_open_horizon_samples 2 = [(0, 1), (0, -1)]
   \<and> get_horizon_circle 2
       \<noteq> Inr (map fst (half_open_horizon_samples 2), map snd (half_open_horizon_samples 2))"
  by (simp add: linspace_def get_horizon_circle_closed_form closed_horizon_samples_def
      half_open_horizon_samples_def upto_0_1 north_point full_turn_point south_point)

section \<open>The computed star positions\<close>

lemma set_update_subset: "set (AList.update k v al) \<subseteq> insert (k, v) (set al)"
  by (induction al) auto

lemma loop_visible_flag:
  assumes "calculate_star_positions_loop env self time stars acc = Inr star_positions"
    and "\<forall>p \<in> snd ` set acc. pos_visible p = (0 < pos_altitude p)"
  shows "\<forall>p \<in> snd ` set star_positions. pos_visible p = (0 < pos_altitude p)"
  using assms
proof (induction stars arbitrary: acc)
  case Nil
  then show ?case by simp
next
  case (Cons item rest)
  obtain star_id star_data where item: "item = (star_id, star_data)"
    by (cases item)
  show ?case
  proof (cases "celestial_to_horizontal env self (star_ra star_data) (star_dec star_data) (Some time)")
    case (Inl e)
    with Cons.prems(1) item show ?thesis by (simp add: Let_def)
  next
    case (Inr r)
    obtain altitude azimuth where r: "r = (altitude, azimuth)"
      by (cases r)
    let ?entry = "\<lparr>pos_ra = star_ra star_data, pos_dec = star_dec star_data,
        pos_altitude = altitude, pos_azimuth = azimuth,
        pos_magnitude = (case star_magnitude star_data of None \<Rightarrow> 5.0 | Some m \<Rightarrow> m),
        pos_visible = (altitude > 0)\<rparr>"
    have run: "calculate_star_positions_loop env self time rest
                 (AList.update star_id ?entry acc) = Inr star_positions"
      using Cons.prems(1) item Inr r by (simp add: Let_def)
    have "\<forall>p \<in> snd ` set (AList.update star_id ?entry acc). pos_visible p = (0 < pos_altitude p)"
      using Cons.prems(2) set_update_subset [of star_id ?entry acc] by fastforce
    with run show ?thesis by (rule Cons.IH)
  qed
qed

lemma calculate_star_positions_visible_flag:
  assumes "calculate_star_positions env self stars time = Inr star_positions"
  shows "\<forall>p \<in> snd ` set star_positions. pos_visible p = (0 < pos_altitude p)"
  using assms unfolding calculate_star_positions_def Let_def
  by (rule loop_visible_flag) simp

lemma example_run:
  "calculate_star_positions example_env example_calc (cat_stars example_catalog) (Some 0)
   = Inr example_positions"
  by (simp add: calculate_star_positions_def celestial_to_horizontal_def example_env_def
      example_calc_def example_catalog_def example_positions_def example_position_1_def
      example_position_2_def)

lemma loop_result:
  assumes "distinct (map fst stars)"
    and "fst ` set stars \<inter> fst ` set acc = {}"
    and "\<forall>item \<in> set stars. \<exists>r.
           celestial_to_horizontal env self (star_ra (snd item)) (star_dec (snd item)) (Some time)
           = Inr r"
  shows "\<exists>sp. calculate_star_positions_loop env self time stars acc = Inr sp
           \<and> map fst sp = map fst acc @ map fst stars
           \<and> (\<forall>k. k \<notin> fst ` set stars \<longrightarrow> map_of sp k = map_of acc k)
           \<and> (\<forall>item \<in> set stars. \<exists>p. map_of sp (fst item) = Some p
                  \<and> entry_ok env self time (snd item) p)"
  using assms
proof (induction stars arbitrary: acc)
  case Nil
  then show ?case by simp
next
  case (Cons item rest)
  obtain k d where item: "item = (k, d)" by (cases item)
  from Cons.prems(3) item obtain altitude azimuth where
    c2h: "celestial_to_horizontal env self (star_ra d) (star_dec d) (Some time)
          = Inr (altitude, azimuth)"
    by fastforce
  define v where "v = \<lparr>pos_ra = star_ra d, pos_dec = star_dec d,
        pos_altitude = altitude, pos_azimuth = azimuth,
        pos_magnitude = (case star_magnitude d of None \<Rightarrow> 5.0 | Some m \<Rightarrow> m),
        pos_visible = (altitude > 0)\<rparr>"
  have step: "calculate_star_positions_loop env self time (item # rest) acc
              = calculate_star_positions_loop env self time rest (AList.update k v acc)"
    using item c2h by (simp add: Let_def v_def)
  have k_rest: "k \<notin> fst ` set rest" and dist: "distinct (map fst rest)"
    using Cons.prems(1) item by auto
  have k_acc: "k \<notin> fst ` set acc"
    using Cons.prems(2) item by auto
  have disj: "fst ` set rest \<inter> fst ` set (AList.update k v acc) = {}"
    using Cons.prems(2) k_rest by (auto simp add: AList.dom_update)
  have succ: "\<forall>item \<in> set rest. \<exists>r.
           celestial_to_horizontal env self (star_ra (snd item)) (star_dec (snd item)) (Some time)
           = Inr r"
    using Cons.prems(3) by simp
  from Cons.IH [OF dist disj succ] obtain sp where
    run: "calculate_star_positions_loop env self time rest (AList.update k v acc) = Inr sp"
    and keys: "map fst sp = map fst (AList.update k v acc) @ map fst rest"
    and others: "\<forall>k'. k' \<notin> fst ` set rest \<longrightarrow> map_of sp k' = map_of (AList.update k v acc) k'"
    and entries: "\<forall>item \<in> set rest. \<exists>p. map_of sp (fst item) = Some p
                  \<and> entry_ok env self time (snd item) p"
    by blast
  have head: "map_of sp k = Some v"
    using others k_rest by (simp add: AList.update_conv')
  have v_ok: "entry_ok env self time d v"
    using c2h by (simp add: entry_ok_def v_def split: option.splits)
  have "map fst sp = map fst acc @ map fst (item # rest)"
    using keys k_acc item by (simp add: AList.update_keys)
  moreover have "\<forall>k'. k' \<notin> fst ` set (item # rest) \<longrightarrow> map_of sp k' = map_of acc k'"
    using others item by (simp add: AList.update_conv')
  moreover have "\<forall>item' \<in> set (item # rest). \<exists>p. map_of sp (fst item') = Some p
                  \<and> entry_ok env self time (snd item') p"
    using entries head v_ok item by simp
  ultimately show ?case
    using step run by simp
qed

text \<open>
  C10. For a star mapping (distinct keys) and an instant at which the transform returns
  for every star, \<open>calculate_star_positions\<close> returns a mapping with the same keys as
  the input, in the same order: no star is removed. The entry of a star copies its right
  ascension, declination and magnitude, the magnitude being 5.0 for a star that has
  none; its altitude and azimuth are what the transform returns; and its visible flag
  says whether the altitude is strictly positive.
\<close>

theorem calculate_star_positions_keeps_every_star:
  assumes "distinct (map fst stars)"
    and "\<forall>item \<in> set stars. \<exists>r.
           celestial_to_horizontal env self (star_ra (snd item)) (star_dec (snd item)) (Some time)
           = Inr r"
  shows "\<exists>star_positions.
           calculate_star_positions env self stars (Some time) = Inr star_positions
           \<and> map fst star_positions = map fst stars
           \<and> (\<forall>item \<in> set stars. \<exists>p.
                 map_of star_positions (fst item) = Some p
                 \<and> pos_ra p = star_ra (snd item)
                 \<and> pos_dec p = star_dec (snd item)
                 \<and> pos_magnitude p
                     = (case star_magnitude (snd item) of None \<Rightarrow> 5 | Some m \<Rightarrow> m)
                 \<and> pos_visible p = (0 < pos_altitude p)
                 \<and> celestial_to_horizontal env self (star_ra (snd item)) (star_dec (snd item))
                       (Some time)
                     = Inr (pos_altitude p, pos_azimuth p))"
proof -
  have "fst ` set stars \<inter> fst ` set ([] :: (star_id \<times> star_position) list) = {}"
    by simp
  from loop_result [OF assms(1) this assms(2)] obtain sp where
    run: "calculate_star_positions_loop env self time stars [] = Inr sp"
    and keys: "map fst sp = map fst [] @ map fst stars"
    and entries: "\<forall>item \<in> set stars. \<exists>p. map_of sp (fst item) = Some p
                  \<and> entry_ok env self time (snd item) p"
    by (elim exE conjE) simp
  show ?thesis
    using run keys entries
    by (intro exI [of _ sp]) (simp add: calculate_star_positions_def entry_ok_def)
qed

theorem calculate_star_positions_keeps_every_star_witness:
  "distinct (map fst (cat_stars example_catalog))
   \<and> celestial_to_horizontal example_env example_calc 0 10 (Some 0) = Inr (10, 0)
   \<and> celestial_to_horizontal example_env example_calc 90 (-5) (Some 0) = Inr (-5, 90)
   \<and> calculate_star_positions example_env example_calc (cat_stars example_catalog) (Some 0)
       = Inr example_positions
   \<and> map fst example_positions = map fst (cat_stars example_catalog)
   \<and> map_of example_positions 2 = Some example_position_2
   \<and> pos_magnitude example_position_2 = 5
   \<and> pos_visible example_position_2 = (0 < pos_altitude example_position_2)"
proof -
  have d: "distinct (map fst (cat_stars example_catalog))"
    by (simp add: example_catalog_def)
  have s: "\<forall>item \<in> set (cat_stars example_catalog). \<exists>r.
           celestial_to_horizontal example_env example_calc (star_ra (snd item))
             (star_dec (snd item)) (Some 0) = Inr r"
    by (simp add: example_catalog_def celestial_to_horizontal_def example_env_def)
  from calculate_star_positions_keeps_every_star [OF d s] show ?thesis
    by (simp add: example_run)
      (simp add: example_catalog_def example_positions_def example_position_1_def
        example_position_2_def celestial_to_horizontal_def example_env_def)
qed

section \<open>Drawing the stars and the constellation lines\<close>

lemma fold_appends:
  assumes "\<And>x ax. x \<in> set xs \<Longrightarrow> ax_artists (f x ax) = ax_artists ax @ g x"
  shows "ax_artists (fold f xs ax) = ax_artists ax @ concat (map g xs)"
  using assms
proof (induction xs arbitrary: ax)
  case Nil
  show ?case by simp
next
  case (Cons x xs)
  have "ax_artists (fold f (x # xs) ax) = ax_artists (fold f xs (f x ax))"
    by simp
  also have "\<dots> = ax_artists (f x ax) @ concat (map g xs)"
    by (rule Cons.IH) (simp add: Cons.prems)
  also have "ax_artists (f x ax) = ax_artists ax @ g x"
    by (simp add: Cons.prems)
  finally show ?case by simp
qed

lemma concat_map_if: "concat (map (\<lambda>x. if P x then [h x] else []) xs) = map h (filter P xs)"
  by (induction xs) simp_all

lemma draw_star_cases:
  assumes "pos_visible p = (0 < pos_altitude p)"
  shows "draw_star self (k, p) ax
         = (if star_is_drawn p then add_artist ax (star_point self p) else ax)"
  using assms
  by (simp add: draw_star_def star_is_drawn_def star_point_def plot_point_def Let_def
      case_prod_beta power2_eq_square not_less)

lemma fold_draw_star:
  assumes "\<forall>p \<in> snd ` set star_positions. pos_visible p = (0 < pos_altitude p)"
  shows "ax_artists (fold (draw_star self) star_positions ax)
         = ax_artists ax @ map (star_point self) (filter star_is_drawn (map snd star_positions))"
proof -
  have step: "ax_artists (draw_star self item ax')
              = ax_artists ax'
                @ (if star_is_drawn (snd item) then [star_point self (snd item)] else [])"
    if "item \<in> set star_positions" for item ax'
  proof -
    have "pos_visible (snd item) = (0 < pos_altitude (snd item))"
      using assms that by simp
    then show ?thesis
      using draw_star_cases [of "snd item" self "fst item" ax'] by (simp add: add_artist_def)
  qed
  have "ax_artists (fold (draw_star self) star_positions ax)
        = ax_artists ax
          @ concat (map (\<lambda>item. if star_is_drawn (snd item) then [star_point self (snd item)]
                                 else []) star_positions)"
    by (rule fold_appends) (rule step)
  also have "concat (map (\<lambda>item. if star_is_drawn (snd item) then [star_point self (snd item)]
                                 else []) star_positions)
             = map (star_point self) (filter star_is_drawn (map snd star_positions))"
    by (induction star_positions) simp_all
  finally show ?thesis .
qed

lemma draw_line_cases:
  assumes "\<forall>p \<in> snd ` set star_positions. pos_visible p = (0 < pos_altitude p)"
  shows "draw_line self star_positions line ax
         = (if line_is_drawn star_positions line
            then add_artist ax (line_segment self star_positions line) else ax)"
proof -
  have flag: "pos_visible p = (0 < pos_altitude p)" if "map_of star_positions k = Some p" for k p
  proof -
    from that have "(k, p) \<in> set star_positions" by (rule map_of_SomeD)
    then have "p \<in> snd ` set star_positions" by force
    with assms show ?thesis by blast
  qed
  show ?thesis
    by (cases line)
      (auto simp add: draw_line_def line_is_drawn_def line_segment_def plot_point_def Let_def
        case_prod_beta flag split: option.splits)
qed

lemma fold_draw_line:
  assumes "\<forall>p \<in> snd ` set star_positions. pos_visible p = (0 < pos_altitude p)"
  shows "ax_artists (fold (draw_line self star_positions) lines ax)
         = ax_artists ax
           @ map (line_segment self star_positions) (filter (line_is_drawn star_positions) lines)"
proof -
  have "ax_artists (fold (draw_line self star_positions) lines ax)
        = ax_artists ax
          @ concat (map (\<lambda>line. if line_is_drawn star_positions line
                                 then [line_segment self star_positions line] else []) lines)"
    by (rule fold_appends) (simp add: draw_line_cases [OF assms] add_artist_def)
  then show ?thesis by (simp only: concat_map_if)
qed

lemma fold_draw_constellation:
  assumes "\<forall>p \<in> snd ` set star_positions. pos_visible p = (0 < pos_altitude p)"
  shows "ax_artists (fold (draw_constellation self star_positions catalog) names ax)
         = ax_artists ax
           @ map (line_segment self star_positions)
               (filter (line_is_drawn star_positions)
                  (concat (map (get_constellation_lines catalog) names)))"
proof -
  have "ax_artists (fold (draw_constellation self star_positions catalog) names ax)
        = ax_artists ax
          @ concat (map (\<lambda>name. map (line_segment self star_positions)
                                   (filter (line_is_drawn star_positions)
                                      (get_constellation_lines catalog name))) names)"
    by (rule fold_appends) (simp add: draw_constellation_def fold_draw_line [OF assms])
  also have "concat (map (\<lambda>name. map (line_segment self star_positions)
                                   (filter (line_is_drawn star_positions)
                                      (get_constellation_lines catalog name))) names)
             = map (line_segment self star_positions)
                 (filter (line_is_drawn star_positions)
                    (concat (map (get_constellation_lines catalog) names)))"
    by (induction names) simp_all
  finally show ?thesis .
qed

lemma tan_half_zenith_lt_1:
  assumes "0 < alt" and "alt \<le> 90"
  shows "0 \<le> tan ((pi / 2 - radians alt) / 2)" and "tan ((pi / 2 - radians alt) / 2) < 1"
proof -
  let ?h = "(pi / 2 - radians alt) / 2"
  have pos: "0 < alt * pi"
    using assms(1) pi_gt_zero by simp
  have small: "alt * pi \<le> 90 * pi"
    using assms(2) pi_gt_zero by (simp only: mult_le_cancel_right_pos)
  have lo: "0 \<le> ?h"
    using small by (simp add: radians_def field_simps)
  have hi: "?h < pi / 4"
    using pos by (simp add: radians_def field_simps)
  show "0 \<le> tan ?h"
    by (rule tan_pos_pi2_le) (use lo hi pi_gt_zero in auto)
  have "tan ?h < tan (pi / 4)"
    by (rule tan_monotone) (use lo hi pi_gt_zero in auto)
  then show "tan ?h < 1" by (simp add: tan_45)
qed

lemma above_horizon_inside_unit_circle:
  assumes "0 < alt" and "alt \<le> 90"
  shows "(fst (project_to_stereographic alt az))\<^sup>2
         + (snd (project_to_stereographic alt az))\<^sup>2 < 1"
proof -
  have "(tan ((pi / 2 - radians alt) / 2))\<^sup>2 < 1\<^sup>2"
    using tan_half_zenith_lt_1 [OF assms] by (intro power_strict_mono) auto
  then show ?thesis
    by (simp only: projection_radius) simp
qed

lemma example_star_1_drawn: "star_is_drawn example_position_1"
proof -
  have "(fst (project_to_stereographic 10 0))\<^sup>2 + (snd (project_to_stereographic 10 0))\<^sup>2 < 1"
    by (rule above_horizon_inside_unit_circle) simp_all
  then show ?thesis
    by (simp add: star_is_drawn_def plot_point_def example_position_1_def
        project_star_position_def project_to_stereographic_def)
qed

lemma example_star_2_not_drawn: "\<not> star_is_drawn example_position_2"
  by (simp add: star_is_drawn_def example_position_2_def)

text \<open>
  C2. For star positions computed by \<open>calculate_star_positions\<close>, \<open>draw_stars\<close> adds to
  the axes exactly one point per star whose altitude is strictly positive and whose plot
  point satisfies \<open>x\<^sup>2 + y\<^sup>2 \<le> 4\<close>, in the order of the mapping, and nothing else;
  the loop body adds the point of a star under this condition and leaves the axes as
  they are otherwise. No branch raises.
\<close>

theorem draw_stars_visible_and_in_bound:
  assumes "calculate_star_positions env sky_calc stars time = Inr star_positions"
  shows "ax_artists (draw_stars (SkyRenderer_init w h d) ax star_positions)
         = ax_artists ax
           @ map (star_point (SkyRenderer_init w h d))
               (filter star_is_drawn (map snd star_positions))
       \<and> (\<forall>item \<in> set star_positions.
            ax_artists (draw_star (SkyRenderer_init w h d) item ax)
            = ax_artists ax
              @ (if star_is_drawn (snd item) then [star_point (SkyRenderer_init w h d) (snd item)]
                 else []))"
proof
  note flags = calculate_star_positions_visible_flag [OF assms]
  show "ax_artists (draw_stars (SkyRenderer_init w h d) ax star_positions)
         = ax_artists ax
           @ map (star_point (SkyRenderer_init w h d))
               (filter star_is_drawn (map snd star_positions))"
    unfolding draw_stars_def by (rule fold_draw_star) (rule flags)
  show "\<forall>item \<in> set star_positions.
            ax_artists (draw_star (SkyRenderer_init w h d) item ax)
            = ax_artists ax
              @ (if star_is_drawn (snd item) then [star_point (SkyRenderer_init w h d) (snd item)]
                 else [])"
  proof
    fix item assume "item \<in> set star_positions"
    then have "pos_visible (snd item) = (0 < pos_altitude (snd item))"
      using flags by simp
    then show "ax_artists (draw_star (SkyRenderer_init w h d) item ax)
            = ax_artists ax
              @ (if star_is_drawn (snd item) then [star_point (SkyRenderer_init w h d) (snd item)]
                 else [])"
      using draw_star_cases [of "snd item" "SkyRenderer_init w h d" "fst item" ax]
      by (simp add: add_artist_def)
  qed
qed

theorem draw_stars_visible_and_in_bound_witness:
  "calculate_star_positions example_env example_calc (cat_stars example_catalog) (Some 0)
     = Inr example_positions
   \<and> ax_artists (draw_stars (SkyRenderer_init 12 12 100)
                   (snd (create_figure (SkyRenderer_init 12 12 100))) example_positions)
     = [star_point (SkyRenderer_init 12 12 100) example_position_1]
   \<and> ax_artists (draw_star (SkyRenderer_init 12 12 100) (2, example_position_2)
                   (snd (create_figure (SkyRenderer_init 12 12 100))))
     = []"
  using draw_stars_visible_and_in_bound [OF example_run, of 12 12 100
      "snd (create_figure (SkyRenderer_init 12 12 100))"]
  by (simp add: example_run example_positions_def example_star_1_drawn example_star_2_not_drawn
      create_figure_def)

lemma example_all_lines: "all_lines example_catalog = [(1, 2), (1, 1), (1, 3)]"
  by (simp add: all_lines_def get_all_constellations_def get_constellation_lines_def
      example_catalog_def)

lemma example_lines_drawn:
  "\<not> line_is_drawn example_positions (1, 2)"
  "line_is_drawn example_positions (1, 1)"
  "\<not> line_is_drawn example_positions (1, 3)"
  by (simp_all add: line_is_drawn_def example_positions_def example_position_1_def
      example_position_2_def)

text \<open>
  C3. For star positions computed by \<open>calculate_star_positions\<close>,
  \<open>draw_constellation_lines\<close> adds to the axes exactly one segment per constellation
  edge whose two star identifiers are keys of the mapping and whose two stars have a
  strictly positive altitude, in the order of the catalog, and nothing else; the loop
  body leaves the axes as they are for an edge with a missing identifier or an invisible
  end. No branch raises.
\<close>

theorem draw_constellation_lines_both_visible:
  assumes "calculate_star_positions env sky_calc stars time = Inr star_positions"
  shows "ax_artists (draw_constellation_lines (SkyRenderer_init w h d) ax star_positions catalog)
         = ax_artists ax
           @ map (line_segment (SkyRenderer_init w h d) star_positions)
               (filter (line_is_drawn star_positions) (all_lines catalog))
       \<and> ax_artists (draw_line (SkyRenderer_init w h d) star_positions line ax)
         = ax_artists ax
           @ (if line_is_drawn star_positions line
              then [line_segment (SkyRenderer_init w h d) star_positions line] else [])"
proof
  note flags = calculate_star_positions_visible_flag [OF assms]
  show "ax_artists (draw_constellation_lines (SkyRenderer_init w h d) ax star_positions catalog)
         = ax_artists ax
           @ map (line_segment (SkyRenderer_init w h d) star_positions)
               (filter (line_is_drawn star_positions) (all_lines catalog))"
    unfolding draw_constellation_lines_def all_lines_def
    by (rule fold_draw_constellation) (rule flags)
  show "ax_artists (draw_line (SkyRenderer_init w h d) star_positions line ax)
         = ax_artists ax
           @ (if line_is_drawn star_positions line
              then [line_segment (SkyRenderer_init w h d) star_positions line] else [])"
    by (simp add: draw_line_cases [OF flags] add_artist_def)
qed

theorem draw_constellation_lines_both_visible_witness:
  "calculate_star_positions example_env example_calc (cat_stars example_catalog) (Some 0)
     = Inr example_positions
   \<and> ax_artists (draw_constellation_lines (SkyRenderer_init 12 12 100)
                   (snd (create_figure (SkyRenderer_init 12 12 100))) example_positions
                   example_catalog)
     = [line_segment (SkyRenderer_init 12 12 100) example_positions (1, 1)]
   \<and> ax_artists (draw_line (SkyRenderer_init 12 12 100) example_positions (1, 2)
                   (snd (create_figure (SkyRenderer_init 12 12 100))))
     = []
   \<and> ax_artists (draw_line (SkyRenderer_init 12 12 100) example_positions (1, 3)
                   (snd (create_figure (SkyRenderer_init 12 12 100))))
     = []"
  using draw_constellation_lines_both_visible [OF example_run, of 12 12 100
      "snd (create_figure (SkyRenderer_init 12 12 100))" example_catalog "(1, 2)"]
    draw_constellation_lines_both_visible [OF example_run, of 12 12 100
      "snd (create_figure (SkyRenderer_init 12 12 100))" example_catalog "(1, 3)"]
  by (simp add: example_run example_all_lines example_lines_drawn create_figure_def)

section \<open>Rendering twice\<close>

lemma celestial_to_horizontal_given_time:
  "celestial_to_horizontal (env\<lparr>now := c\<rparr>) self ra dec (Some t)
   = celestial_to_horizontal env self ra dec (Some t)"
  by (simp add: celestial_to_horizontal_def)

lemma loop_ignores_clock:
  "calculate_star_positions_loop (env\<lparr>now := c\<rparr>) self t stars acc
   = calculate_star_positions_loop env self t stars acc"
proof (induction stars arbitrary: acc)
  case Nil
  show ?case by simp
next
  case (Cons item rest)
  obtain k d where item: "item = (k, d)" by (cases item)
  show ?case
    unfolding item calculate_star_positions_loop.simps celestial_to_horizontal_given_time Cons.IH
    by (rule refl)
qed

lemma calculate_star_positions_given_time:
  "calculate_star_positions (env\<lparr>now := c\<rparr>) self stars (Some t)
   = calculate_star_positions env self stars (Some t)"
  by (simp add: calculate_star_positions_def loop_ignores_clock)

lemma SkyCalculator_init_ignores_clock:
  "SkyCalculator_init (env\<lparr>now := c\<rparr>) latitude longitude elevation
   = SkyCalculator_init env latitude longitude elevation"
  by (simp add: SkyCalculator_init_def)

lemma add_title_and_info_ignores_clock:
  "add_title_and_info (env\<lparr>now := c\<rparr>) self ax latitude longitude t city_name
   = add_title_and_info env self ax latitude longitude t city_name"
  by (simp add: add_title_and_info_def)

lemma render_sky_ignores_clock:
  "render_sky (env\<lparr>now := c\<rparr>) self latitude longitude (Some t) city_name
   = render_sky env self latitude longitude (Some t) city_name"
  by (simp add: render_sky_def Let_def case_prod_beta SkyCalculator_init_ignores_clock
      calculate_star_positions_given_time add_title_and_info_ignores_clock
      cong: sum.case_cong)

lemma same_style:
  assumes "colors s = colors s'" and "star_sizes s = star_sizes s'"
  shows "snd (create_figure s) = snd (create_figure s')"
    and "draw_horizon_and_grid s = draw_horizon_and_grid s'"
    and "draw_stars s = draw_stars s'"
    and "draw_constellation_lines s = draw_constellation_lines s'"
    and "add_title_and_info env s = add_title_and_info env s'"
proof -
  show "snd (create_figure s) = snd (create_figure s')"
    by (simp add: create_figure_def assms)
  have "draw_altitude_circle s = draw_altitude_circle s'"
    by (intro ext) (simp add: draw_altitude_circle_def Let_def assms)
  moreover have "draw_cardinal_direction s = draw_cardinal_direction s'"
    by (intro ext) (simp add: draw_cardinal_direction_def Let_def case_prod_beta assms)
  ultimately show "draw_horizon_and_grid s = draw_horizon_and_grid s'"
    by (intro ext) (simp add: draw_horizon_and_grid_def Let_def assms)
  have "draw_star s = draw_star s'"
    by (intro ext) (simp add: draw_star_def calculate_star_size_def Let_def case_prod_beta assms)
  then show "draw_stars s = draw_stars s'"
    by (intro ext) (simp add: draw_stars_def)
  have "draw_line s = draw_line s'"
    by (intro ext) (simp add: draw_line_def Let_def case_prod_beta assms split: option.splits)
  then have "draw_constellation s = draw_constellation s'"
    by (intro ext) (simp add: draw_constellation_def)
  then show "draw_constellation_lines s = draw_constellation_lines s'"
    by (intro ext) (simp add: draw_constellation_lines_def)
  show "add_title_and_info env s = add_title_and_info env s'"
    by (intro ext) (simp add: add_title_and_info_def Let_def assms)
qed

lemma render_sky_same_style:
  assumes "colors s = colors s'" and "star_sizes s = star_sizes s'"
  shows "map_sum id snd (render_sky env s latitude longitude time city_name)
         = map_sum id snd (render_sky env s' latitude longitude time city_name)"
  by (simp add: render_sky_def Let_def case_prod_beta same_style(1,2,3,4,5) [OF assms]
      split: sum.splits)

text \<open>
  C8. The outcome of \<open>render_sky\<close> at a given instant, that is the error raised or the
  axes with their sequence of artists, is a function of the catalog, the location, the
  instant and the display name: it is the same whatever the clock shows and whatever the
  figure size and resolution of the renderer are. Two runs on the same inputs yield the
  same sequence of primitives.
\<close>

theorem render_sky_deterministic:
  "map_sum id snd
     (render_sky (env\<lparr>now := c\<rparr>) (SkyRenderer_init w' h' d') latitude longitude (Some t)
        city_name)
   = map_sum id snd
       (render_sky env (SkyRenderer_init w h d) latitude longitude (Some t) city_name)"
proof -
  have "map_sum id snd
     (render_sky env (SkyRenderer_init w' h' d') latitude longitude (Some t) city_name)
   = map_sum id snd
       (render_sky env (SkyRenderer_init w h d) latitude longitude (Some t) city_name)"
    by (rule render_sky_same_style) (simp_all add: SkyRenderer_init_def)
  then show ?thesis
    by (simp only: render_sky_ignores_clock)
qed

end
